theory Spec2Isabelle
  imports Main "HOL-Library.Word" "HOL-Library.Signed_Division"
begin

unbundle bit_operations_syntax

section \<open>Ontime Display Bridge: the translation and rendering engine\<close>

text \<open>
  A shallow embedding of \<^verbatim>\<open>Ontime_Bridge_v0_1.ino\<close>: the helper \<^verbatim>\<open>formatByte\<close>,
  the periodic \<^verbatim>\<open>updateLcdTitle\<close> and the handler \<^verbatim>\<open>webSocketEvent\<close>. The sketch
  runs on an ESP8266, where \<^verbatim>\<open>int\<close> and \<^verbatim>\<open>long\<close> are 32-bit two's complement
  and \<^verbatim>\<open>byte\<close> is an unsigned 8-bit value.
\<close>

subsection \<open>Machine integers\<close>

text \<open>
  Values of the C types \<^verbatim>\<open>int\<close> and \<^verbatim>\<open>long\<close> are modelled as HOL integers in the
  range \<open>-2^31 .. 2^31 - 1\<close>. \<open>wrap32\<close> is the two's-complement wrap-around of a result
  that left that range. C's \<^verbatim>\<open>/\<close> and \<^verbatim>\<open>%\<close> truncate towards zero: they are
  \<open>sdiv\<close> and \<open>smod\<close>.
\<close>

type_synonym byte = "8 word"

definition LONG_MIN :: int where
  "LONG_MIN = - 2147483648"

definition LONG_MAX :: int where
  "LONG_MAX = 2147483647"

definition wrap32 :: "int \<Rightarrow> int" where
  "wrap32 x = (x + 2147483648) mod 4294967296 - 2147483648"

text \<open>
  \<^verbatim>\<open>abs(x)\<close> on a \<^verbatim>\<open>long\<close>: a positive \<open>x\<close> itself, else its negation. The
  negation of \<^verbatim>\<open>LONG_MIN\<close> does not fit in a \<^verbatim>\<open>long\<close> (the overflow is undefined
  in C++); on the two's-complement target it wraps around to \<^verbatim>\<open>LONG_MIN\<close> itself.
\<close>

definition abs_long :: "int \<Rightarrow> int" where
  "abs_long x = (if x > 0 then x else wrap32 (- x))"

subsection \<open>The legacy protocol encoder\<close>

text \<open>
  \<^verbatim>\<open>byte formatByte(int value)\<close>: tens and ones by truncating division, the ones
  shifted into the high nibble, the result cut to its low eight bits by the return type.
\<close>

definition formatByte :: "int \<Rightarrow> byte" where
  "formatByte v =
     (let tens = v sdiv 10;
          ones = v smod 10
      in word_of_int (push_bit 4 ones OR tens))"

text \<open>
  The receiver's reading of such a byte, as the specification describes the inverse: the
  tens digit is the low nibble, the ones digit the high nibble. This function is not part
  of the sketch; it is the decoder against which the round trip is stated.
\<close>

definition decodeByte :: "byte \<Rightarrow> int" where
  "decodeByte b = 10 * uint (b AND 15) + uint (drop_bit 4 b)"

subsection \<open>Arduino strings\<close>

text \<open>
  An Arduino \<^verbatim>\<open>String\<close> is a byte string. \<^verbatim>\<open>substring(left, right)\<close> swaps its
  bounds when they are out of order, returns the empty string when \<open>left\<close> is not a
  position of the string and cuts \<open>right\<close> down to the length.
\<close>

definition substring :: "string \<Rightarrow> nat \<Rightarrow> nat \<Rightarrow> string" where
  "substring s left right =
     (let l = (if left > right then right else left);
          r = (if left > right then left else right)
      in if l \<ge> length s then []
         else take ((if r > length s then length s else r) - l) (drop l s))"

text \<open>The loop \<^verbatim>\<open>while (line.length() < 16) line += " ";\<close>\<close>

function pad16 :: "string \<Rightarrow> string" where
  "pad16 line = (if length line < 16 then pad16 (line @ '' '') else line)"
  by pat_completeness auto
termination
  by (relation "measure (\<lambda>line. 16 - length line)") auto

declare pad16.simps [simp del]

text \<open>\<^verbatim>\<open>String(int)\<close> and \<^verbatim>\<open>printf("%d")\<close>: the decimal digits, after a minus sign
  for a negative number.\<close>

definition digit_char :: "nat \<Rightarrow> char" where
  "digit_char d = ''0123456789'' ! d"

function decimal :: "nat \<Rightarrow> string" where
  "decimal n = (if n < 10 then [digit_char n] else decimal (n div 10) @ [digit_char (n mod 10)])"
  by pat_completeness auto
termination
  by (relation "measure (\<lambda>n. n)") auto

declare decimal.simps [simp del]

definition String_int :: "int \<Rightarrow> string" where
  "String_int i = (if i < 0 then CHR ''-'' # decimal (nat (- i)) else decimal (nat i))"

subsection \<open>JSON values\<close>

text \<open>
  The tree that \<^verbatim>\<open>JSON.parse\<close> builds (the Arduino JSON library over cJSON). An object keeps its
  members in message order, duplicates included; a lookup returns the first member with
  the key. A number carries its integer part.
\<close>

datatype json =
    JNull
  | JBool bool
  | JNumber int
  | JString string
  | JArray "json list"
  | JObject "(string \<times> json) list"

text \<open>\<^verbatim>\<open>v.hasOwnProperty(key)\<close>: false on anything that is not an object.\<close>

fun hasOwnProperty :: "json \<Rightarrow> string \<Rightarrow> bool" where
  "hasOwnProperty (JObject kvs) key = (case map_of kvs key of None \<Rightarrow> False | Some _ \<Rightarrow> True)"
| "hasOwnProperty _ key = False"

text \<open>\<^verbatim>\<open>v[key]\<close>. The sketch reads a member only after \<^verbatim>\<open>hasOwnProperty\<close> held; for a
  missing key the library hands back a fresh null.\<close>

fun member_of :: "json \<Rightarrow> string \<Rightarrow> json" where
  "member_of (JObject kvs) key = (case map_of kvs key of None \<Rightarrow> JNull | Some v \<Rightarrow> v)"
| "member_of _ key = JNull"

text \<open>
  \<^verbatim>\<open>(const char*)v\<close> assigned to a \<^verbatim>\<open>String\<close>: the text of a JSON string; for any
  other value the cast is a null pointer, which leaves the \<^verbatim>\<open>String\<close> empty.
\<close>

fun as_String :: "json \<Rightarrow> string" where
  "as_String (JString s) = s"
| "as_String _ = []"

text \<open>
  \<^verbatim>\<open>(long)v\<close>: cJSON's \<^verbatim>\<open>valueint\<close> of a number, which saturates at the bounds of
  \<^verbatim>\<open>int\<close>; 0 for any other value.
\<close>

fun as_long :: "json \<Rightarrow> int" where
  "as_long (JNumber n) = (if n \<ge> LONG_MAX then LONG_MAX else if n \<le> LONG_MIN then LONG_MIN else n)"
| "as_long _ = 0"

subsection \<open>Engine state and outputs\<close>

text \<open>The globals of the sketch that the handler and the scroller read or write.\<close>

record engine =
  ontime_host :: string
  ontime_port :: int
  currentEventTitle :: string
  lastScrollTime :: "32 word"
  scrollIndex :: int

text \<open>The globals' initialisers.\<close>

definition boot :: engine where
  "boot = \<lparr> ontime_host = ''example.com'', ontime_port = 443,
            currentEventTitle = ''Ontime'', lastScrollTime = 0, scrollIndex = 0 \<rparr>"

text \<open>What a call sends to the outside: the debug port, the display's serial line
  (\<^verbatim>\<open>Serial1\<close>) and the LCD.\<close>

datatype effect =
    SerialPrintln string
  | SerialPrintf string
  | Serial1Write byte
  | LcdClear
  | LcdSetCursor nat nat
  | LcdPrint string

text \<open>The bytes written to the display's serial line and the texts printed on the LCD,
  in order.\<close>

fun serialBytes :: "effect list \<Rightarrow> byte list" where
  "serialBytes [] = []"
| "serialBytes (Serial1Write b # out) = b # serialBytes out"
| "serialBytes (_ # out) = serialBytes out"

fun lcdPrints :: "effect list \<Rightarrow> string list" where
  "lcdPrints [] = []"
| "lcdPrints (LcdPrint t # out) = t # lcdPrints out"
| "lcdPrints (_ # out) = lcdPrints out"

subsection \<open>The title scroller\<close>

text \<open>
  \<^verbatim>\<open>updateLcdTitle\<close>, called from \<^verbatim>\<open>loop\<close>. It reads \<^verbatim>\<open>millis()\<close> twice, for the test
  and for the new \<^verbatim>\<open>lastScrollTime\<close>: the two readings are the arguments \<open>now\<close> and
  \<open>now'\<close>. The subtraction is on \<^verbatim>\<open>unsigned long\<close>. \<^verbatim>\<open>scrollIndex\<close> is an
  \<^verbatim>\<open>int\<close> that stays between 0 and the title's length plus 3, far inside its range
  and never negative, so its arithmetic, its comparison with the length and its use as a
  position are those of the integers.
\<close>

definition scrollInterval :: "32 word" where
  "scrollInterval = 400"

definition updateLcdTitle :: "engine \<Rightarrow> 32 word \<Rightarrow> 32 word \<Rightarrow> engine \<times> effect list" where
  "updateLcdTitle s now now' =
     (if now - lastScrollTime s \<ge> scrollInterval then
        (let s1 = s\<lparr>lastScrollTime := now'\<rparr>;
             title = currentEventTitle s1
         in if length title > 16 then
              (let scrollBuffer = title @ ''   '' @ title;
                   toPrint = substring scrollBuffer (nat (scrollIndex s1)) (nat (scrollIndex s1 + 16));
                   idx = scrollIndex s1 + 1;
                   idx = (if idx > int (length title) + 3 then 0 else idx)
               in (s1\<lparr>scrollIndex := idx\<rparr>, [LcdSetCursor 0 0, LcdPrint toPrint]))
            else
              (s1, [LcdSetCursor 0 0, LcdPrint (pad16 title)]))
      else (s, []))"

subsection \<open>The message handler\<close>

text \<open>Step 3 of the handler: the time in milliseconds, 0 without a \<^verbatim>\<open>current\<close> member.\<close>

definition currentMs :: "json \<Rightarrow> int" where
  "currentMs timer =
     (if hasOwnProperty timer ''current'' then as_long (member_of timer ''current'') else 0)"

text \<open>Step 4: milliseconds to minutes and seconds.\<close>

definition totalSeconds :: "int \<Rightarrow> int" where
  "totalSeconds ms =
     (let absMs = abs_long ms;
          total = absMs sdiv 1000
      in if ms > 0 \<and> absMs smod 1000 \<noteq> 0 then total + 1 else total)"

definition minutes :: "int \<Rightarrow> int" where
  "minutes ms =
     (let m = totalSeconds ms sdiv 60
      in if m > 99 then 99 else m)"

definition seconds :: "int \<Rightarrow> int" where
  "seconds ms = totalSeconds ms smod 60"

text \<open>Step 5: the colour name, from the timer object and the sign of the time.\<close>

definition cStr :: "json \<Rightarrow> int \<Rightarrow> string" where
  "cStr timer ms =
     (if hasOwnProperty timer ''color'' then as_String (member_of timer ''color'')
      else if hasOwnProperty timer ''colour'' then as_String (member_of timer ''colour'')
      else if ms < 0 then ''red''
      else if hasOwnProperty timer ''phase'' then
        (let phase = as_String (member_of timer ''phase'');
             c = ''green'';
             c = (if phase = ''overtime'' then ''red'' else c);
             c = (if phase = ''warn'' then ''amber'' else c);
             c = (if phase = ''warning'' then ''amber'' else c)
         in c)
      else ''green'')"

text \<open>Step 6: the colour byte and the status text of a colour name.\<close>

definition colorByte :: "string \<Rightarrow> byte" where
  "colorByte c = (if c = ''red'' then 0x02 else if c = ''amber'' then 0x03 else 0x01)"

definition colorStatus :: "string \<Rightarrow> string" where
  "colorStatus c = (if c = ''red'' then ''Over'' else if c = ''amber'' then ''Warn'' else ''Running'')"

text \<open>The override of the status text when the timer is not playing.\<close>

definition lcdStatus :: "json \<Rightarrow> string \<Rightarrow> string" where
  "lcdStatus timer status =
     (if hasOwnProperty timer ''playback'' then
        (let playback = as_String (member_of timer ''playback'')
         in if playback \<noteq> ''play'' \<and> playback \<noteq> ''start'' then ''Stopped'' else status)
      else status)"

text \<open>Step 10: the text of LCD row 1.\<close>

definition timeStr :: "int \<Rightarrow> int \<Rightarrow> int \<Rightarrow> string" where
  "timeStr ms m sec =
     (if ms < 0 then ''-'' else [])
     @ (if m < 10 then ''0'' else []) @ String_int m @ '':''
     @ (if sec < 10 then ''0'' else []) @ String_int sec"

definition line1 :: "string \<Rightarrow> string \<Rightarrow> string" where
  "line1 status time =
     (let l = pad16 (status @ '' '' @ time)
      in if length l > 16 then substring l 0 16 else l)"

text \<open>The body of \<^verbatim>\<open>if (corePayload.hasOwnProperty("timer"))\<close>.\<close>

definition handleTimer :: "engine \<Rightarrow> string \<Rightarrow> json \<Rightarrow> engine \<times> effect list" where
  "handleTimer s newTitle0 timer =
     (let newTitle =
            (if hasOwnProperty timer ''label'' then as_String (member_of timer ''label'')
             else if hasOwnProperty timer ''title'' then as_String (member_of timer ''title'')
             else newTitle0);
          s' = (if newTitle \<noteq> currentEventTitle s
                then s\<lparr>currentEventTitle := newTitle, scrollIndex := 0\<rparr> else s);
          ms = currentMs timer;
          c = cStr timer ms;
          status = lcdStatus timer (colorStatus c);
          minByte = formatByte (minutes ms);
          secByte = formatByte (seconds ms)
      in (s', [Serial1Write minByte, Serial1Write secByte, Serial1Write (colorByte c),
               LcdSetCursor 0 1,
               LcdPrint (line1 status (timeStr ms (minutes ms) (seconds ms)))]))"

text \<open>The body of \<^verbatim>\<open>if (doc.hasOwnProperty("payload"))\<close>.\<close>

definition handlePayload :: "engine \<Rightarrow> json \<Rightarrow> engine \<times> effect list" where
  "handlePayload s corePayload =
     (let newTitle =
            (if hasOwnProperty corePayload ''eventNow'' then
               (let eventNow = member_of corePayload ''eventNow''
                in if hasOwnProperty eventNow ''title''
                   then as_String (member_of eventNow ''title'')
                   else currentEventTitle s)
             else currentEventTitle s)
      in if hasOwnProperty corePayload ''timer''
         then handleTimer s newTitle (member_of corePayload ''timer'')
         else (s, []))"

datatype WStype_t =
    WStype_ERROR
  | WStype_DISCONNECTED
  | WStype_CONNECTED
  | WStype_TEXT
  | WStype_BIN
  | WStype_FRAGMENT_TEXT_START
  | WStype_FRAGMENT_BIN_START
  | WStype_FRAGMENT
  | WStype_FRAGMENT_FIN
  | WStype_PING
  | WStype_PONG

text \<open>
  \<^verbatim>\<open>webSocketEvent\<close>. The third argument is what \<^verbatim>\<open>JSON.parse\<close> made of the
  payload: \<open>None\<close> when the text did not parse (\<^verbatim>\<open>JSON.typeof(doc) == "undefined"\<close>).
  It is read for a text message only.
\<close>

definition webSocketEvent :: "engine \<Rightarrow> WStype_t \<Rightarrow> json option \<Rightarrow> engine \<times> effect list" where
  "webSocketEvent s type parsed =
     (case type of
        WStype_DISCONNECTED \<Rightarrow>
          (s, [SerialPrintln ''[WSc] Disconnected! Attempting to reconnect...'',
               LcdClear, LcdSetCursor 0 0, LcdPrint ''Disconnected!''])
      | WStype_CONNECTED \<Rightarrow>
          (s, [SerialPrintln ''[WSc] >>> CONNECTED TO ONTIME! <<<'',
               SerialPrintf (''[WSc] Connected to: wss://'' @ ontime_host s @ '':''
                             @ String_int (ontime_port s) @ ''/ws'' @ [CHR 0x0A]),
               LcdClear, LcdSetCursor 0 0, LcdPrint ''Connected!'',
               LcdSetCursor 0 1, LcdPrint ''Waiting data...''])
      | WStype_TEXT \<Rightarrow>
          (case parsed of
             None \<Rightarrow> (s, [])
           | Some doc \<Rightarrow>
               if hasOwnProperty doc ''payload''
               then handlePayload s (member_of doc ''payload'')
               else (s, []))
      | WStype_ERROR \<Rightarrow>
          (s, [SerialPrintln ''[WSc] WebSocket Error Occurred!'',
               LcdSetCursor 0 1, LcdPrint ''WS Error!''])
      | _ \<Rightarrow> (s, []))"

subsection \<open>Notions of the specification\<close>

text \<open>
  The definitions below are not code of the sketch: they are the specification's own
  vocabulary, written from its words, against which the handler is compared.
\<close>

text \<open>The \<^verbatim>\<open>timer\<close> member of a message's \<^verbatim>\<open>payload\<close>, when the message has both.\<close>

definition timerOf :: "json \<Rightarrow> json option" where
  "timerOf doc =
     (if hasOwnProperty doc ''payload'' \<and> hasOwnProperty (member_of doc ''payload'') ''timer''
      then Some (member_of (member_of doc ''payload'') ''timer'')
      else None)"

text \<open>A JSON object without any member of the given key.\<close>

fun removeProperty :: "json \<Rightarrow> string \<Rightarrow> json" where
  "removeProperty (JObject kvs) key = JObject (filter (\<lambda>kv. fst kv \<noteq> key) kvs)"
| "removeProperty v key = v"

text \<open>The fields of the specification's TimerSnapshot (section 4.1): the colour is the
  field \<^verbatim>\<open>color\<close>, else \<^verbatim>\<open>colour\<close>; a field that is absent is unset.\<close>

definition colorTag :: "json \<Rightarrow> string option" where
  "colorTag timer =
     (if hasOwnProperty timer ''color'' then Some (as_String (member_of timer ''color''))
      else if hasOwnProperty timer ''colour'' then Some (as_String (member_of timer ''colour''))
      else None)"

definition phaseTag :: "json \<Rightarrow> string option" where
  "phaseTag timer =
     (if hasOwnProperty timer ''phase'' then Some (as_String (member_of timer ''phase''))
      else None)"

definition playbackTag :: "json \<Rightarrow> string option" where
  "playbackTag timer =
     (if hasOwnProperty timer ''playback'' then Some (as_String (member_of timer ''playback''))
      else None)"

text \<open>The colour classes with their bytes and labels (section 3).\<close>

datatype ColorClass = green | amber | red

fun classByte :: "ColorClass \<Rightarrow> byte" where
  "classByte green = 0x01"
| "classByte amber = 0x03"
| "classByte red = 0x02"

fun classLabel :: "ColorClass \<Rightarrow> string" where
  "classLabel green = ''Running''"
| "classLabel amber = ''Warn''"
| "classLabel red = ''Over''"

text \<open>
  The Status Resolver's precedence (section 4.3), first match wins: an explicit colour
  tag decides alone; without one, a negative time is red; else the phase decides; else
  green. The playback override of the label comes last.
\<close>

definition resolveClass :: "string option \<Rightarrow> string option \<Rightarrow> bool \<Rightarrow> ColorClass" where
  "resolveClass colorT phaseT isNegative =
     (case colorT of
        Some t \<Rightarrow> if t = ''red'' then red else if t = ''amber'' then amber else green
      | None \<Rightarrow>
          if isNegative then red
          else (case phaseT of
                  Some p \<Rightarrow> if p = ''overtime'' then red
                            else if p = ''warn'' \<or> p = ''warning'' then amber
                            else green
                | None \<Rightarrow> green))"

definition resolveStatus ::
  "string option \<Rightarrow> string option \<Rightarrow> bool \<Rightarrow> string option \<Rightarrow> ColorClass \<times> string" where
  "resolveStatus colorT phaseT isNegative playbackT =
     (let c = resolveClass colorT phaseT isNegative
      in (c, case playbackT of
               None \<Rightarrow> classLabel c
             | Some p \<Rightarrow> if p = ''play'' \<or> p = ''start'' then classLabel c else ''Stopped''))"

text \<open>A value of 0..99 as two decimal digits, zero-padded (section 4.6).\<close>

definition twoDigits :: "int \<Rightarrow> string" where
  "twoDigits v = [digit_char (nat (v div 10)), digit_char (nat (v mod 10))]"

text \<open>The invariant of the scroll state (section 8).\<close>

definition scroll_inv :: "engine \<Rightarrow> bool" where
  "scroll_inv s = (0 \<le> scrollIndex s \<and> scrollIndex s \<le> int (length (currentEventTitle s)) + 3)"

subsection \<open>The main loop\<close>

text \<open>
  \<^verbatim>\<open>loop\<close> alternates the transport, which calls the handler on each event it has,
  and the scroller. A run of the engine is a list of such calls, in order.
\<close>

datatype step =
    Event WStype_t "json option"
  | Tick "32 word" "32 word"

fun step_engine :: "engine \<Rightarrow> step \<Rightarrow> engine \<times> effect list" where
  "step_engine s (Event type parsed) = webSocketEvent s type parsed"
| "step_engine s (Tick now now') = updateLcdTitle s now now'"

fun run :: "engine \<Rightarrow> step list \<Rightarrow> engine" where
  "run s [] = s"
| "run s (x # xs) = run (fst (step_engine s x)) xs"

text \<open>After \<^verbatim>\<open>setup\<close> the title, the cursor and the scroll time have their initial
  values; host and port are as configured.\<close>

definition after_setup :: "engine \<Rightarrow> bool" where
  "after_setup s =
     (currentEventTitle s = ''Ontime'' \<and> scrollIndex s = 0 \<and> lastScrollTime s = 0)"

section \<open>Properties\<close>

subsection \<open>Shared facts\<close>

lemma sdiv_smod_nonneg:
  fixes a b :: int
  assumes "0 \<le> a" "0 < b"
  shows "a sdiv b = a div b" "a smod b = a mod b"
  using assms by (simp_all add: signed_divide_int_def signed_modulo_int_def sgn_if)

lemma pad16_replicate: "pad16 l = l @ replicate (16 - length l) CHR '' ''"
proof (induction l rule: pad16.induct)
  case (1 line)
  show ?case
  proof (cases "length line < 16")
    case True
    then have "pad16 line = pad16 (line @ '' '')" by (simp add: pad16.simps [of line])
    also have "\<dots> = (line @ '' '') @ replicate (16 - length (line @ '' '')) CHR '' ''"
      using True by (rule "1.IH")
    also have "\<dots> = line @ replicate (16 - length line) CHR '' ''"
      using True by (simp add: replicate_append_same Suc_diff_Suc flip: replicate_Suc)
    finally show ?thesis .
  next
    case False
    then show ?thesis by (simp add: pad16.simps [of line])
  qed
qed

lemma decimal_digit: "n < 10 \<Longrightarrow> decimal n = [digit_char n]"
  by (simp add: decimal.simps [of n])

lemma decimal_step: "10 \<le> n \<Longrightarrow> decimal n = decimal (n div 10) @ [digit_char (n mod 10)]"
  by (simp add: decimal.simps [of n])

text \<open>What a text message with a timer sends out, whatever the state.\<close>

lemma text_message_effects:
  assumes "timerOf doc = Some timer"
  shows "snd (webSocketEvent s WStype_TEXT (Some doc)) =
     [Serial1Write (formatByte (minutes (currentMs timer))),
      Serial1Write (formatByte (seconds (currentMs timer))),
      Serial1Write (colorByte (cStr timer (currentMs timer))),
      LcdSetCursor 0 1,
      LcdPrint (line1 (lcdStatus timer (colorStatus (cStr timer (currentMs timer))))
                  (timeStr (currentMs timer) (minutes (currentMs timer)) (seconds (currentMs timer))))]"
  using assms
  by (simp add: timerOf_def webSocketEvent_def handlePayload_def handleTimer_def Let_def
      split: if_splits)

lemma text_message_no_timer:
  assumes "timerOf doc = None"
  shows "webSocketEvent s WStype_TEXT (Some doc) = (s, [])"
  using assms
  by (auto simp add: timerOf_def webSocketEvent_def handlePayload_def Let_def split: if_splits)

subsection \<open>The digit-pair encoder\<close>

lemma roundtrip_table: "list_all (\<lambda>v. decodeByte (formatByte v) = v) [0..99]"
  by code_simp

text \<open>
  Claim C4. For every \<open>v\<close> in 0..99, \<open>formatByte v\<close> is \<open>((v mod 10) << 4) | (v div 10)\<close>,
  and reading the byte back with the nibbles reversed (tens in the low nibble, ones in the
  high nibble, \<open>10 * tens + ones\<close>) gives \<open>v\<close> again.
\<close>

theorem formatByte_roundtrip:
  assumes "0 \<le> v" and "v \<le> 99"
  shows "formatByte v = word_of_int (push_bit 4 (v mod 10) OR (v div 10))
         \<and> decodeByte (formatByte v) = v"
proof
  show "formatByte v = word_of_int (push_bit 4 (v mod 10) OR (v div 10))"
    using assms by (simp add: formatByte_def sdiv_smod_nonneg)
  have "v \<in> set [0..99]" using assms by simp
  with roundtrip_table show "decodeByte (formatByte v) = v"
    by (simp only: list_all_iff)
qed

theorem formatByte_roundtrip_witness:
  "(0::int) \<le> 12 \<and> (12::int) \<le> 99 \<and> formatByte 12 = 0x21 \<and> decodeByte (formatByte 12) = 12"
  using formatByte_roundtrip [of 12] by (simp add: decodeByte_def)

subsection \<open>The time formatter\<close>

lemma abs_long_in_range:
  assumes "LONG_MIN < ms" "ms \<le> LONG_MAX"
  shows "abs_long ms = \<bar>ms\<bar>"
  using assms by (simp add: abs_long_def wrap32_def LONG_MIN_def LONG_MAX_def)

text \<open>
  On every value of a \<^verbatim>\<open>long\<close> but the least one the formatter computes what the
  specification says: the floor of the absolute seconds, one more for a positive time
  with a remainder, minutes cut at 99, seconds modulo 60.
\<close>

lemma time_formatter_in_range:
  assumes "LONG_MIN < ms" "ms \<le> LONG_MAX"
  shows "totalSeconds ms = \<bar>ms\<bar> div 1000 + (if ms > 0 \<and> \<bar>ms\<bar> mod 1000 \<noteq> 0 then 1 else 0)"
    and "minutes ms = min (totalSeconds ms div 60) 99"
    and "seconds ms = totalSeconds ms mod 60"
    and "0 \<le> totalSeconds ms"
proof -
  have a: "abs_long ms = \<bar>ms\<bar>" using assms by (rule abs_long_in_range)
  show t: "totalSeconds ms = \<bar>ms\<bar> div 1000 + (if ms > 0 \<and> \<bar>ms\<bar> mod 1000 \<noteq> 0 then 1 else 0)"
    by (auto simp add: totalSeconds_def a sdiv_smod_nonneg Let_def)
  have "0 \<le> \<bar>ms\<bar> div 1000" by simp
  with t show n: "0 \<le> totalSeconds ms" by simp
  show "minutes ms = min (totalSeconds ms div 60) 99"
    using n by (simp add: minutes_def sdiv_smod_nonneg min_def)
  show "seconds ms = totalSeconds ms mod 60"
    using n by (simp add: seconds_def sdiv_smod_nonneg)
qed

lemma minutes_seconds_bounds:
  assumes "LONG_MIN < ms" "ms \<le> LONG_MAX"
  shows "0 \<le> minutes ms \<and> minutes ms \<le> 99 \<and> 0 \<le> seconds ms \<and> seconds ms \<le> 59"
proof -
  have n: "0 \<le> totalSeconds ms" using assms by (rule time_formatter_in_range(4))
  then have "0 \<le> totalSeconds ms div 60" by simp
  then have "0 \<le> minutes ms \<and> minutes ms \<le> 99"
    by (simp add: time_formatter_in_range(2) [OF assms])
  moreover have "0 \<le> seconds ms \<and> seconds ms \<le> 59"
    by (simp add: time_formatter_in_range(3) [OF assms] zle_diff1_eq [symmetric])
  ultimately show ?thesis by simp
qed

text \<open>
  Claim C2. The specification gives, for every signed time, minutes
  \<open>min (floor(|ms| / 1000) div 60) 99\<close> and seconds \<open>floor(|ms| / 1000) mod 60\<close>. A
  message whose \<^verbatim>\<open>current\<close> is \<open>-2147483648\<close> (or less: the conversion saturates)
  gives the handler the least \<^verbatim>\<open>long\<close>. Its \<^verbatim>\<open>abs\<close> overflows and stays negative:
  the handler computes minutes \<open>-35791\<close> and seconds \<open>-23\<close>, where the specification
  says 99 and 23, and sends the bytes \<open>0xF5 0xFE 0x02\<close> and a malformed status row.
\<close>

theorem time_formatter_LONG_MIN:
  "as_long (JNumber (- 2147483648)) = LONG_MIN
   \<and> totalSeconds LONG_MIN = - 2147483
   \<and> minutes LONG_MIN = - 35791
   \<and> seconds LONG_MIN = - 23
   \<and> min (\<bar>LONG_MIN\<bar> div 1000 div 60) 99 = 99
   \<and> \<bar>LONG_MIN\<bar> div 1000 mod 60 = 23
   \<and> webSocketEvent boot WStype_TEXT
        (Some (JObject [(''payload'', JObject [(''timer'',
                 JObject [(''current'', JNumber (- 2147483648))])])]))
      = (boot, [Serial1Write 0xF5, Serial1Write 0xFE, Serial1Write 0x02,
                LcdSetCursor 0 1, LcdPrint ''Over -0-35791:0-''])"
proof -
  have ms: "as_long (JNumber (- 2147483648)) = LONG_MIN"
    by (simp add: LONG_MIN_def LONG_MAX_def)
  have tm: "totalSeconds LONG_MIN = - 2147483" "minutes LONG_MIN = - 35791" "seconds LONG_MIN = - 23"
    by (simp_all add: totalSeconds_def minutes_def seconds_def abs_long_def wrap32_def LONG_MIN_def
        signed_divide_int_def signed_modulo_int_def)
  have sp: "min (\<bar>LONG_MIN\<bar> div 1000 div 60) 99 = 99" "\<bar>LONG_MIN\<bar> div 1000 mod 60 = 23"
    by (simp_all add: LONG_MIN_def)
  have fb: "formatByte (- 35791) = 0xF5" "formatByte (- 23) = 0xFE"
    by code_simp+
  have dec: "decimal 35791 = ''35791''" "decimal 23 = ''23''"
    by (simp_all add: decimal_step decimal_digit digit_char_def)
  have neg: "LONG_MIN < 0"
    by (simp add: LONG_MIN_def)
  have row: "line1 ''Over'' (timeStr LONG_MIN (- 35791) (- 23)) = ''Over -0-35791:0-''"
    by (simp add: line1_def timeStr_def String_int_def dec neg pad16_replicate substring_def)
  have ev: "webSocketEvent boot WStype_TEXT
        (Some (JObject [(''payload'', JObject [(''timer'',
                 JObject [(''current'', JNumber (- 2147483648))])])]))
      = (boot, [Serial1Write 0xF5, Serial1Write 0xFE, Serial1Write 0x02,
                LcdSetCursor 0 1, LcdPrint ''Over -0-35791:0-''])"
    unfolding webSocketEvent_def handlePayload_def handleTimer_def
    by (simp add: currentMs_def ms tm fb row cStr_def neg colorByte_def colorStatus_def
        lcdStatus_def boot_def del: as_long.simps)
  from ms tm sp ev show ?thesis by simp
qed

subsection \<open>Messages without a payload or without a timer\<close>

text \<open>
  Claim C6. A text message that does not parse, or that parses to a value without a
  \<^verbatim>\<open>payload\<close> property, does nothing: the engine state (title, scroll cursor and the
  rest) is returned as it was, and nothing is sent to the serial line or the LCD.
\<close>

theorem malformed_message_noop:
  "webSocketEvent s WStype_TEXT None = (s, [])
   \<and> (\<not> hasOwnProperty doc ''payload'' \<longrightarrow> webSocketEvent s WStype_TEXT (Some doc) = (s, []))"
  by (simp add: webSocketEvent_def)

theorem malformed_message_noop_witness:
  "webSocketEvent boot WStype_TEXT None = (boot, [])
   \<and> \<not> hasOwnProperty (JObject [(''type'', JString ''poll'')]) ''payload''
   \<and> webSocketEvent boot WStype_TEXT (Some (JObject [(''type'', JString ''poll'')])) = (boot, [])"
  using malformed_message_noop [of boot "JObject [(''type'', JString ''poll'')]"] by simp

text \<open>
  Claim C3. The specification has a message with \<^verbatim>\<open>payload.eventNow.title\<close> and no
  \<^verbatim>\<open>timer\<close> update the displayed title all the same. The handler reads the title of
  \<^verbatim>\<open>eventNow\<close> before it looks for a timer, under its banner for the title update,
  but stores it only inside the timer block. From the state after start-up, the message
  with the \<^verbatim>\<open>eventNow\<close> title \<open>Keynote\<close> and no timer leaves the title \<open>Ontime\<close>
  and the cursor as they were and sends nothing, where the specification says the title
  becomes \<open>Keynote\<close>; the same payload with an empty timer object beside it does set
  the title to \<open>Keynote\<close>.
\<close>

theorem title_only_message_dropped:
  "timerOf (JObject [(''payload'', JObject [(''eventNow'',
       JObject [(''title'', JString ''Keynote'')])])]) = None
   \<and> hasOwnProperty (JObject [(''payload'', JObject [(''eventNow'',
       JObject [(''title'', JString ''Keynote'')])])]) ''payload''
   \<and> as_String (member_of (member_of (member_of (JObject [(''payload'', JObject [(''eventNow'',
       JObject [(''title'', JString ''Keynote'')])])]) ''payload'') ''eventNow'') ''title'')
      = ''Keynote''
   \<and> currentEventTitle boot = ''Ontime''
   \<and> webSocketEvent boot WStype_TEXT
        (Some (JObject [(''payload'', JObject [(''eventNow'',
            JObject [(''title'', JString ''Keynote'')])])]))
      = (boot, [])
   \<and> currentEventTitle (fst (webSocketEvent boot WStype_TEXT
        (Some (JObject [(''payload'', JObject [(''eventNow'',
            JObject [(''title'', JString ''Keynote'')])])]))))
      \<noteq> ''Keynote''
   \<and> currentEventTitle (fst (webSocketEvent boot WStype_TEXT
        (Some (JObject [(''payload'', JObject [(''eventNow'',
            JObject [(''title'', JString ''Keynote'')]), (''timer'', JObject [])])]))))
      = ''Keynote''"
proof -
  let ?doc = "JObject [(''payload'', JObject [(''eventNow'',
       JObject [(''title'', JString ''Keynote'')])])]"
  let ?sibling = "JObject [(''payload'', JObject [(''eventNow'',
       JObject [(''title'', JString ''Keynote'')]), (''timer'', JObject [])])]"
  have n: "timerOf ?doc = None"
    by (simp add: timerOf_def)
  have p: "hasOwnProperty ?doc ''payload''"
    by simp
  have t: "as_String (member_of (member_of (member_of ?doc ''payload'') ''eventNow'') ''title'')
             = ''Keynote''"
    by simp
  have b: "currentEventTitle boot = ''Ontime''"
    by (simp add: boot_def)
  have ev: "webSocketEvent boot WStype_TEXT (Some ?doc) = (boot, [])"
    using n by (rule text_message_no_timer)
  have same: "currentEventTitle (fst (webSocketEvent boot WStype_TEXT (Some ?doc))) \<noteq> ''Keynote''"
    by (simp add: ev b)
  have sib: "currentEventTitle (fst (webSocketEvent boot WStype_TEXT (Some ?sibling))) = ''Keynote''"
    by (simp add: webSocketEvent_def handlePayload_def handleTimer_def Let_def boot_def)
  from n p t b ev same sib show ?thesis by (intro conjI)
qed

subsection \<open>Status and colour\<close>

lemma colorByte_resolveClass:
  "colorByte (cStr timer ms) = classByte (resolveClass (colorTag timer) (phaseTag timer) (ms < 0))"
  by (simp add: colorByte_def cStr_def resolveClass_def colorTag_def phaseTag_def Let_def)

lemma colorStatus_resolveClass:
  "colorStatus (cStr timer ms) = classLabel (resolveClass (colorTag timer) (phaseTag timer) (ms < 0))"
  by (simp add: colorStatus_def cStr_def resolveClass_def colorTag_def phaseTag_def Let_def)

lemma lcdStatus_playbackTag:
  "lcdStatus timer l =
     (case playbackTag timer of None \<Rightarrow> l
      | Some p \<Rightarrow> if p = ''play'' \<or> p = ''start'' then l else ''Stopped'')"
  by (simp add: lcdStatus_def playbackTag_def Let_def)

text \<open>
  Claim C1. The colour byte and the status label that the handler sends for a timer are
  those of the specification's resolver \<open>resolveStatus\<close>, a function of the colour tag
  (\<^verbatim>\<open>color\<close>, else \<^verbatim>\<open>colour\<close>), the phase tag, the sign of the time and the
  playback tag alone: an explicit colour tag decides (red, amber, anything else green);
  only without one a negative time gives red, then the phase decides; otherwise green;
  the playback override of the label is applied last.
\<close>

theorem status_resolution:
  assumes "timerOf doc = Some timer"
    and "resolveStatus (colorTag timer) (phaseTag timer) (currentMs timer < 0) (playbackTag timer) = (c, l)"
  shows "serialBytes (snd (webSocketEvent s WStype_TEXT (Some doc))) =
           [formatByte (minutes (currentMs timer)), formatByte (seconds (currentMs timer)), classByte c]
         \<and> lcdPrints (snd (webSocketEvent s WStype_TEXT (Some doc))) =
           [line1 l (timeStr (currentMs timer) (minutes (currentMs timer)) (seconds (currentMs timer)))]"
proof -
  from assms(2) have c: "c = resolveClass (colorTag timer) (phaseTag timer) (currentMs timer < 0)"
    by (simp add: resolveStatus_def Let_def)
  from assms(2) have l: "l = lcdStatus timer (colorStatus (cStr timer (currentMs timer)))"
    by (auto simp add: resolveStatus_def Let_def lcdStatus_playbackTag colorStatus_resolveClass
        split: option.splits)
  show ?thesis
    by (simp add: text_message_effects [OF assms(1)] c l colorByte_resolveClass)
qed

lemma time_zero: "totalSeconds 0 = 0" "minutes 0 = 0" "seconds 0 = 0"
  by (simp_all add: totalSeconds_def minutes_def seconds_def abs_long_def wrap32_def)

lemma formatByte_zero: "formatByte 0 = 0"
  by (simp add: formatByte_def)

lemma timeStr_zero: "timeStr 0 0 0 = ''00:00''"
  by (simp add: timeStr_def String_int_def decimal_digit digit_char_def)

theorem status_resolution_witness:
  "timerOf (JObject [(''payload'', JObject [(''timer'',
       JObject [(''phase'', JString ''warn''), (''playback'', JString ''play'')])])])
     = Some (JObject [(''phase'', JString ''warn''), (''playback'', JString ''play'')])
   \<and> resolveStatus None (Some ''warn'') False (Some ''play'') = (amber, ''Warn'')
   \<and> serialBytes (snd (webSocketEvent boot WStype_TEXT
        (Some (JObject [(''payload'', JObject [(''timer'',
           JObject [(''phase'', JString ''warn''), (''playback'', JString ''play'')])])]))))
      = [0x00, 0x00, 0x03]
   \<and> lcdPrints (snd (webSocketEvent boot WStype_TEXT
        (Some (JObject [(''payload'', JObject [(''timer'',
           JObject [(''phase'', JString ''warn''), (''playback'', JString ''play'')])])]))))
      = [''Warn 00:00      '']"
proof -
  let ?timer = "JObject [(''phase'', JString ''warn''), (''playback'', JString ''play'')]"
  let ?doc = "JObject [(''payload'', JObject [(''timer'', ?timer)])]"
  have h1: "timerOf ?doc = Some ?timer"
    by (simp add: timerOf_def)
  have ms: "currentMs ?timer = 0"
    by (simp add: currentMs_def)
  have tags: "colorTag ?timer = None" "phaseTag ?timer = Some ''warn''"
    "playbackTag ?timer = Some ''play''"
    by (simp_all add: colorTag_def phaseTag_def playbackTag_def)
  have r: "resolveStatus None (Some ''warn'') False (Some ''play'') = (amber, ''Warn'')"
    by (simp add: resolveStatus_def resolveClass_def)
  have h2: "resolveStatus (colorTag ?timer) (phaseTag ?timer) (currentMs ?timer < 0)
              (playbackTag ?timer) = (amber, ''Warn'')"
    by (simp add: tags ms r)
  have row: "line1 ''Warn'' ''00:00'' = ''Warn 00:00      ''"
    by (simp add: line1_def pad16_replicate eval_nat_numeral)
  from status_resolution [OF h1 h2, of boot] h1 r show ?thesis
    by (simp add: ms time_zero formatByte_zero timeStr_zero row)
qed

subsection \<open>Playback override\<close>

lemma map_of_filter_key:
  "map_of (filter (\<lambda>kv. fst kv \<noteq> key) kvs) k = (if k = key then None else map_of kvs k)"
  by (induction kvs) auto

lemma hasOwnProperty_removeProperty:
  "hasOwnProperty (removeProperty v key) k = (k \<noteq> key \<and> hasOwnProperty v k)"
  by (cases v) (simp_all add: map_of_filter_key)

lemma member_of_removeProperty:
  "k \<noteq> key \<Longrightarrow> member_of (removeProperty v key) k = member_of v k"
  by (cases v) (simp_all add: map_of_filter_key)

lemma currentMs_without_playback:
  "currentMs (removeProperty timer ''playback'') = currentMs timer"
  by (simp add: currentMs_def hasOwnProperty_removeProperty member_of_removeProperty)

lemma cStr_without_playback:
  "cStr (removeProperty timer ''playback'') ms = cStr timer ms"
  by (simp add: cStr_def hasOwnProperty_removeProperty member_of_removeProperty)

text \<open>
  Claim C5. When the timer of a message has a \<^verbatim>\<open>playback\<close> member whose value is
  neither \<open>play\<close> nor \<open>start\<close>, the status row carries the label \<open>Stopped\<close>, and the
  three bytes sent on the serial line, the colour byte among them, are those sent for
  the same timer without the \<^verbatim>\<open>playback\<close> member. When the timer has no
  \<^verbatim>\<open>playback\<close> member the label is the colour's own.
\<close>

theorem playback_override:
  assumes "timerOf doc = Some timer"
    and "timerOf doc' = Some (removeProperty timer ''playback'')"
  shows "(hasOwnProperty timer ''playback''
            \<and> as_String (member_of timer ''playback'') \<noteq> ''play''
            \<and> as_String (member_of timer ''playback'') \<noteq> ''start''
          \<longrightarrow> lcdPrints (snd (webSocketEvent s WStype_TEXT (Some doc))) =
                [line1 ''Stopped''
                   (timeStr (currentMs timer) (minutes (currentMs timer)) (seconds (currentMs timer)))]
              \<and> serialBytes (snd (webSocketEvent s WStype_TEXT (Some doc))) =
                serialBytes (snd (webSocketEvent s WStype_TEXT (Some doc')))
              \<and> serialBytes (snd (webSocketEvent s WStype_TEXT (Some doc))) ! 2 =
                colorByte (cStr timer (currentMs timer)))
       \<and> (\<not> hasOwnProperty timer ''playback''
          \<longrightarrow> lcdPrints (snd (webSocketEvent s WStype_TEXT (Some doc))) =
                [line1 (colorStatus (cStr timer (currentMs timer)))
                   (timeStr (currentMs timer) (minutes (currentMs timer)) (seconds (currentMs timer)))])"
  by (simp add: text_message_effects [OF assms(1)] text_message_effects [OF assms(2)]
      currentMs_without_playback cStr_without_playback lcdStatus_def)

theorem playback_override_witness:
  "timerOf (JObject [(''payload'', JObject [(''timer'',
       JObject [(''color'', JString ''red''), (''playback'', JString ''stop'')])])])
     = Some (JObject [(''color'', JString ''red''), (''playback'', JString ''stop'')])
   \<and> timerOf (JObject [(''payload'', JObject [(''timer'', JObject [(''color'', JString ''red'')])])])
     = Some (removeProperty (JObject [(''color'', JString ''red''), (''playback'', JString ''stop'')])
               ''playback'')
   \<and> hasOwnProperty (JObject [(''color'', JString ''red''), (''playback'', JString ''stop'')]) ''playback''
   \<and> lcdPrints (snd (webSocketEvent boot WStype_TEXT
        (Some (JObject [(''payload'', JObject [(''timer'',
           JObject [(''color'', JString ''red''), (''playback'', JString ''stop'')])])]))))
      = [''Stopped 00:00   '']
   \<and> serialBytes (snd (webSocketEvent boot WStype_TEXT
        (Some (JObject [(''payload'', JObject [(''timer'',
           JObject [(''color'', JString ''red''), (''playback'', JString ''stop'')])])]))))
      = serialBytes (snd (webSocketEvent boot WStype_TEXT
        (Some (JObject [(''payload'', JObject [(''timer'', JObject [(''color'', JString ''red'')])])]))))
   \<and> serialBytes (snd (webSocketEvent boot WStype_TEXT
        (Some (JObject [(''payload'', JObject [(''timer'',
           JObject [(''color'', JString ''red''), (''playback'', JString ''stop'')])])])))) ! 2
      = 0x02
   \<and> \<not> hasOwnProperty (JObject [(''color'', JString ''red'')]) ''playback''
   \<and> lcdPrints (snd (webSocketEvent boot WStype_TEXT
        (Some (JObject [(''payload'', JObject [(''timer'', JObject [(''color'', JString ''red'')])])]))))
      = [''Over 00:00      '']"
proof -
  let ?timer = "JObject [(''color'', JString ''red''), (''playback'', JString ''stop'')]"
  let ?timer' = "JObject [(''color'', JString ''red'')]"
  let ?doc = "JObject [(''payload'', JObject [(''timer'', ?timer)])]"
  let ?doc' = "JObject [(''payload'', JObject [(''timer'', ?timer')])]"
  have h1: "timerOf ?doc = Some ?timer"
    by (simp add: timerOf_def)
  have rm: "removeProperty ?timer ''playback'' = ?timer'"
    by simp
  have h2: "timerOf ?doc' = Some (removeProperty ?timer ''playback'')"
    by (simp add: timerOf_def)
  have h2': "timerOf ?doc' = Some ?timer'"
    by (simp add: timerOf_def)
  have h3: "timerOf ?doc' = Some (removeProperty ?timer' ''playback'')"
    by (simp add: timerOf_def)
  have ms: "currentMs ?timer = 0" "currentMs ?timer' = 0"
    by (simp_all add: currentMs_def)
  have c: "cStr ?timer 0 = ''red''" "cStr ?timer' 0 = ''red''"
    by (simp_all add: cStr_def)
  have pb: "hasOwnProperty ?timer ''playback''" "as_String (member_of ?timer ''playback'') = ''stop''"
    "\<not> hasOwnProperty ?timer' ''playback''"
    by simp_all
  have row: "line1 ''Stopped'' ''00:00'' = ''Stopped 00:00   ''"
    "line1 ''Over'' ''00:00'' = ''Over 00:00      ''"
    by (simp_all add: line1_def pad16_replicate eval_nat_numeral)
  from playback_override [OF h1 h2, of boot] playback_override [OF h2' h3, of boot] h1 h2 pb
  show ?thesis
    by (simp add: text_message_effects [OF h1] text_message_effects [OF h2'] ms c time_zero
        timeStr_zero row colorByte_def colorStatus_def lcdStatus_def)
qed

subsection \<open>Independence of the engine state\<close>

text \<open>
  Claim C10. What a text message sends out does not depend on the engine state: from any
  two states (any displayed title, scroll cursor or history) the same message gives the
  same outputs, and for a message with a timer the three serial bytes and the status row
  are functions of the timer object alone.
\<close>

theorem outputs_independent_of_state:
  "snd (webSocketEvent s1 WStype_TEXT parsed) = snd (webSocketEvent s2 WStype_TEXT parsed)
   \<and> (\<forall>doc timer. parsed = Some doc \<and> timerOf doc = Some timer \<longrightarrow>
        serialBytes (snd (webSocketEvent s1 WStype_TEXT parsed)) =
          [formatByte (minutes (currentMs timer)), formatByte (seconds (currentMs timer)),
           colorByte (cStr timer (currentMs timer))]
        \<and> lcdPrints (snd (webSocketEvent s1 WStype_TEXT parsed)) =
          [line1 (lcdStatus timer (colorStatus (cStr timer (currentMs timer))))
             (timeStr (currentMs timer) (minutes (currentMs timer)) (seconds (currentMs timer)))])"
proof (intro conjI allI impI)
  show "snd (webSocketEvent s1 WStype_TEXT parsed) = snd (webSocketEvent s2 WStype_TEXT parsed)"
  proof (cases parsed)
    case None
    then show ?thesis by (simp add: webSocketEvent_def)
  next
    case (Some doc)
    show ?thesis
    proof (cases "timerOf doc")
      case None
      then show ?thesis using Some by (simp add: text_message_no_timer)
    next
      case (Some timer)
      then show ?thesis using \<open>parsed = Some doc\<close> by (simp add: text_message_effects)
    qed
  qed
next
  fix doc timer
  assume "parsed = Some doc \<and> timerOf doc = Some timer"
  then show "serialBytes (snd (webSocketEvent s1 WStype_TEXT parsed)) =
          [formatByte (minutes (currentMs timer)), formatByte (seconds (currentMs timer)),
           colorByte (cStr timer (currentMs timer))]"
    by (simp add: text_message_effects)
next
  fix doc timer
  assume "parsed = Some doc \<and> timerOf doc = Some timer"
  then show "lcdPrints (snd (webSocketEvent s1 WStype_TEXT parsed)) =
          [line1 (lcdStatus timer (colorStatus (cStr timer (currentMs timer))))
             (timeStr (currentMs timer) (minutes (currentMs timer)) (seconds (currentMs timer)))]"
    by (simp add: text_message_effects)
qed

theorem outputs_independent_of_state_witness:
  "timerOf (JObject [(''payload'', JObject [(''timer'', JObject [(''current'', JNumber 754321)])])])
     = Some (JObject [(''current'', JNumber 754321)])
   \<and> snd (webSocketEvent boot WStype_TEXT
        (Some (JObject [(''payload'', JObject [(''timer'', JObject [(''current'', JNumber 754321)])])])))
     = snd (webSocketEvent (boot\<lparr>currentEventTitle := ''Keynote'', scrollIndex := 3\<rparr>) WStype_TEXT
        (Some (JObject [(''payload'', JObject [(''timer'', JObject [(''current'', JNumber 754321)])])])))
   \<and> serialBytes (snd (webSocketEvent boot WStype_TEXT
        (Some (JObject [(''payload'', JObject [(''timer'', JObject [(''current'', JNumber 754321)])])]))))
     = [0x21, 0x53, 0x01]
   \<and> lcdPrints (snd (webSocketEvent boot WStype_TEXT
        (Some (JObject [(''payload'', JObject [(''timer'', JObject [(''current'', JNumber 754321)])])]))))
     = [''Running 12:35   '']"
proof -
  let ?timer = "JObject [(''current'', JNumber 754321)]"
  let ?doc = "JObject [(''payload'', JObject [(''timer'', ?timer)])]"
  have h: "timerOf ?doc = Some ?timer"
    by (simp add: timerOf_def)
  have ms: "currentMs ?timer = 754321"
    by (simp add: currentMs_def LONG_MAX_def LONG_MIN_def)
  have tm: "minutes 754321 = 12" "seconds 754321 = 35"
    by (simp_all add: minutes_def seconds_def totalSeconds_def abs_long_def)
  have fb: "formatByte 12 = 0x21" "formatByte 35 = 0x53"
    by (simp_all add: formatByte_def)
  have c: "cStr ?timer 754321 = ''green''"
    by (simp add: cStr_def)
  have st: "lcdStatus ?timer (colorStatus ''green'') = ''Running''"
    by (simp add: lcdStatus_def colorStatus_def)
  have ts: "timeStr 754321 12 35 = ''12:35''"
    by (simp add: timeStr_def String_int_def decimal_step decimal_digit digit_char_def)
  have row: "line1 ''Running'' ''12:35'' = ''Running 12:35   ''"
    by (simp add: line1_def pad16_replicate eval_nat_numeral)
  from outputs_independent_of_state
         [of boot "Some ?doc" "boot\<lparr>currentEventTitle := ''Keynote'', scrollIndex := 3\<rparr>"] h
  show ?thesis
    by (simp add: text_message_effects [OF h] ms tm fb c st ts row colorByte_def)
qed

subsection \<open>The status row\<close>

lemma digit_char_zero: "digit_char 0 = CHR ''0''"
  by (simp add: digit_char_def)

lemma zero_padded_is_twoDigits:
  assumes "0 \<le> v" and "v \<le> 99"
  shows "(if v < 10 then ''0'' else []) @ String_int v = twoDigits v"
proof (cases "v < 10")
  case True
  with assms have "nat v < 10" "v div 10 = 0" "v mod 10 = v" by simp_all
  with assms True show ?thesis
    by (simp add: String_int_def twoDigits_def decimal_digit digit_char_zero)
next
  case False
  with assms have big: "10 \<le> nat v" and small: "nat v div 10 < 10" by simp_all
  have d: "nat (v div 10) = nat v div 10" "nat (v mod 10) = nat v mod 10"
    using assms by (simp_all add: nat_div_distrib nat_mod_distrib)
  from assms False show ?thesis
    by (simp add: String_int_def twoDigits_def decimal_step [OF big] decimal_digit [OF small] d)
qed

lemma substring_prefix: "length l > n \<Longrightarrow> substring l 0 n = take n l"
  by (simp add: substring_def)

lemma line1_pad_or_cut:
  "line1 status time =
     (if length (status @ '' '' @ time) \<le> 16
      then (status @ '' '' @ time) @ replicate (16 - length (status @ '' '' @ time)) CHR '' ''
      else take 16 (status @ '' '' @ time))"
  by (simp add: line1_def pad16_replicate substring_prefix Let_def)

text \<open>
  The row for a status label, minutes in 0..99, seconds in 0..59 and a sign: the label, a
  space, a minus sign when the time is negative, the minutes as two digits, a colon and
  the seconds as two digits; padded with spaces when shorter than 16 characters and cut
  after the sixteenth when longer: always exactly 16 characters.
\<close>

lemma line1_timeStr_format:
  assumes "0 \<le> m" and "m \<le> 99" and "0 \<le> sec" and "sec \<le> 59"
  shows "line1 status (timeStr ms m sec) =
           (if length (status @ '' '' @ (if ms < 0 then ''-'' else []) @ twoDigits m @ '':'' @ twoDigits sec) \<le> 16
            then (status @ '' '' @ (if ms < 0 then ''-'' else []) @ twoDigits m @ '':'' @ twoDigits sec)
                 @ replicate (16 - length (status @ '' '' @ (if ms < 0 then ''-'' else [])
                                             @ twoDigits m @ '':'' @ twoDigits sec)) CHR '' ''
            else take 16 (status @ '' '' @ (if ms < 0 then ''-'' else []) @ twoDigits m @ '':'' @ twoDigits sec))
         \<and> length (line1 status (timeStr ms m sec)) = 16"
proof -
  have mm: "(if m < 10 then ''0'' else []) @ String_int m = twoDigits m"
    using assms(1,2) by (rule zero_padded_is_twoDigits)
  have ss: "(if sec < 10 then ''0'' else []) @ String_int sec = twoDigits sec"
  proof (rule zero_padded_is_twoDigits)
    show "0 \<le> sec" by (rule assms(3))
    show "sec \<le> 99" using assms(4) by simp
  qed
  have "timeStr ms m sec =
          (if ms < 0 then ''-'' else []) @ ((if m < 10 then ''0'' else []) @ String_int m) @ '':''
          @ ((if sec < 10 then ''0'' else []) @ String_int sec)"
    by (simp add: timeStr_def)
  then have t: "timeStr ms m sec = (if ms < 0 then ''-'' else []) @ twoDigits m @ '':'' @ twoDigits sec"
    by (simp only: mm ss)
  let ?row = "status @ '' '' @ (if ms < 0 then ''-'' else []) @ twoDigits m @ '':'' @ twoDigits sec"
  have eq: "line1 status (timeStr ms m sec) =
              (if length ?row \<le> 16 then ?row @ replicate (16 - length ?row) CHR '' ''
               else take 16 ?row)"
    unfolding t by (rule line1_pad_or_cut)
  have len: "length (if length ?row \<le> 16 then ?row @ replicate (16 - length ?row) CHR '' ''
                     else take 16 ?row) = 16"
  proof (cases "length ?row \<le> 16")
    case True
    then show ?thesis by simp
  next
    case False
    then show ?thesis by simp
  qed
  from eq len show ?thesis by simp
qed

lemma currentMs_range: "LONG_MIN \<le> currentMs timer \<and> currentMs timer \<le> LONG_MAX"
proof (cases "hasOwnProperty timer ''current''")
  case True
  show ?thesis
    by (cases "member_of timer ''current''")
       (simp_all add: currentMs_def True LONG_MIN_def LONG_MAX_def)
next
  case False
  then show ?thesis by (simp add: currentMs_def LONG_MIN_def LONG_MAX_def)
qed

text \<open>
  What the handler prints for a timer whose time is not the least \<^verbatim>\<open>long\<close>: the row in
  the form above, with the label, the sign, the minutes and the seconds that the handler
  resolved.
\<close>

lemma handler_status_row:
  assumes "timerOf doc = Some timer" and "currentMs timer \<noteq> LONG_MIN"
  shows "lcdPrints (snd (webSocketEvent s WStype_TEXT (Some doc))) =
           [if length (lcdStatus timer (colorStatus (cStr timer (currentMs timer))) @ '' ''
                       @ (if currentMs timer < 0 then ''-'' else [])
                       @ twoDigits (minutes (currentMs timer)) @ '':''
                       @ twoDigits (seconds (currentMs timer))) \<le> 16
            then (lcdStatus timer (colorStatus (cStr timer (currentMs timer))) @ '' ''
                  @ (if currentMs timer < 0 then ''-'' else [])
                  @ twoDigits (minutes (currentMs timer)) @ '':''
                  @ twoDigits (seconds (currentMs timer)))
                 @ replicate (16 - length (lcdStatus timer (colorStatus (cStr timer (currentMs timer)))
                                             @ '' '' @ (if currentMs timer < 0 then ''-'' else [])
                                             @ twoDigits (minutes (currentMs timer)) @ '':''
                                             @ twoDigits (seconds (currentMs timer)))) CHR '' ''
            else take 16 (lcdStatus timer (colorStatus (cStr timer (currentMs timer))) @ '' ''
                          @ (if currentMs timer < 0 then ''-'' else [])
                          @ twoDigits (minutes (currentMs timer)) @ '':''
                          @ twoDigits (seconds (currentMs timer)))]"
    and "map length (lcdPrints (snd (webSocketEvent s WStype_TEXT (Some doc)))) = [16]"
proof -
  let ?ms = "currentMs timer"
  from currentMs_range [of timer] assms(2) have r: "LONG_MIN < ?ms" "?ms \<le> LONG_MAX"
    by simp_all
  from minutes_seconds_bounds [OF r]
  have b: "0 \<le> minutes ?ms" "minutes ?ms \<le> 99" "0 \<le> seconds ?ms" "seconds ?ms \<le> 59"
    by simp_all
  note f = line1_timeStr_format [OF b, of "lcdStatus timer (colorStatus (cStr timer ?ms))" ?ms]
  have p: "lcdPrints (snd (webSocketEvent s WStype_TEXT (Some doc))) =
             [line1 (lcdStatus timer (colorStatus (cStr timer ?ms)))
                (timeStr ?ms (minutes ?ms) (seconds ?ms))]"
    by (simp add: text_message_effects [OF assms(1)])
  from f [THEN conjunct1] show "lcdPrints (snd (webSocketEvent s WStype_TEXT (Some doc))) =
           [if length (lcdStatus timer (colorStatus (cStr timer (currentMs timer))) @ '' ''
                       @ (if currentMs timer < 0 then ''-'' else [])
                       @ twoDigits (minutes (currentMs timer)) @ '':''
                       @ twoDigits (seconds (currentMs timer))) \<le> 16
            then (lcdStatus timer (colorStatus (cStr timer (currentMs timer))) @ '' ''
                  @ (if currentMs timer < 0 then ''-'' else [])
                  @ twoDigits (minutes (currentMs timer)) @ '':''
                  @ twoDigits (seconds (currentMs timer)))
                 @ replicate (16 - length (lcdStatus timer (colorStatus (cStr timer (currentMs timer)))
                                             @ '' '' @ (if currentMs timer < 0 then ''-'' else [])
                                             @ twoDigits (minutes (currentMs timer)) @ '':''
                                             @ twoDigits (seconds (currentMs timer)))) CHR '' ''
            else take 16 (lcdStatus timer (colorStatus (cStr timer (currentMs timer))) @ '' ''
                          @ (if currentMs timer < 0 then ''-'' else [])
                          @ twoDigits (minutes (currentMs timer)) @ '':''
                          @ twoDigits (seconds (currentMs timer)))]"
    by (simp only: p)
  from f [THEN conjunct2] show "map length (lcdPrints (snd (webSocketEvent s WStype_TEXT (Some doc)))) = [16]"
    by (simp only: p list.map)
qed

text \<open>
  Claim C9. The specification has every status row read label, space, optional minus,
  two-digit minutes, colon, two-digit seconds, padded or cut to 16 characters. For every
  timer but one the handler prints that (\<open>handler_status_row\<close>). A message whose
  \<^verbatim>\<open>current\<close> is \<open>-2147483648\<close> or less resolves, by the overflow of \<^verbatim>\<open>abs\<close> in the
  time formatter, to the label \<open>Over\<close>, a negative time, minutes \<open>-35791\<close> and seconds
  \<open>-23\<close>, and the handler prints the row \<open>Over -0-35791:0-\<close>: no row of the form
  \<open>Over -dd:dd\<close> with five spaces after it, whatever the four digits, and not the row
  \<open>Over -99:23\<close> of the minutes and seconds that the specification gives for this time.
\<close>

theorem status_row_LONG_MIN:
  "timerOf (JObject [(''payload'', JObject [(''timer'',
       JObject [(''current'', JNumber (- 2147483648))])])])
     = Some (JObject [(''current'', JNumber (- 2147483648))])
   \<and> currentMs (JObject [(''current'', JNumber (- 2147483648))]) = LONG_MIN
   \<and> lcdStatus (JObject [(''current'', JNumber (- 2147483648))])
         (colorStatus (cStr (JObject [(''current'', JNumber (- 2147483648))]) LONG_MIN)) = ''Over''
   \<and> minutes LONG_MIN = - 35791
   \<and> seconds LONG_MIN = - 23
   \<and> lcdPrints (snd (webSocketEvent boot WStype_TEXT
        (Some (JObject [(''payload'', JObject [(''timer'',
                 JObject [(''current'', JNumber (- 2147483648))])])]))))
      = [''Over -0-35791:0-'']
   \<and> (\<forall>a b c d. ''Over -0-35791:0-'' \<noteq> ''Over -'' @ [a, b] @ '':'' @ [c, d] @ ''     '')
   \<and> ''Over -0-35791:0-'' \<noteq> ''Over -99:23     ''"
proof -
  let ?timer = "JObject [(''current'', JNumber (- 2147483648))]"
  let ?doc = "JObject [(''payload'', JObject [(''timer'', ?timer)])]"
  have h: "timerOf ?doc = Some ?timer"
    by (simp add: timerOf_def)
  have ms: "currentMs ?timer = LONG_MIN"
    by (simp add: currentMs_def LONG_MIN_def LONG_MAX_def)
  have neg: "LONG_MIN < 0"
    by (simp add: LONG_MIN_def)
  have st: "lcdStatus ?timer (colorStatus (cStr ?timer LONG_MIN)) = ''Over''"
    by (simp add: lcdStatus_def colorStatus_def cStr_def neg)
  have tm: "minutes LONG_MIN = - 35791" "seconds LONG_MIN = - 23"
    by (simp_all add: totalSeconds_def minutes_def seconds_def abs_long_def wrap32_def LONG_MIN_def
        signed_divide_int_def signed_modulo_int_def)
  have dec: "decimal 35791 = ''35791''" "decimal 23 = ''23''"
    by (simp_all add: decimal_step decimal_digit digit_char_def)
  have row: "line1 ''Over'' (timeStr LONG_MIN (- 35791) (- 23)) = ''Over -0-35791:0-''"
    by (simp add: line1_def timeStr_def String_int_def dec neg pad16_replicate substring_def)
  have pr: "lcdPrints (snd (webSocketEvent boot WStype_TEXT (Some ?doc))) = [''Over -0-35791:0-'']"
    by (simp add: text_message_effects [OF h] ms st tm row)
  have form: "\<forall>a b c d. ''Over -0-35791:0-'' \<noteq> ''Over -'' @ [a, b] @ '':'' @ [c, d] @ ''     ''"
    by simp
  have spec: "''Over -0-35791:0-'' \<noteq> ''Over -99:23     ''"
    by simp
  from h ms st tm pr form spec show ?thesis by (intro conjI)
qed

subsection \<open>The scroll state\<close>

lemma handleTimer_state:
  "fst (handleTimer s t timer) = s
   \<or> (\<exists>t'. t' \<noteq> currentEventTitle s
           \<and> fst (handleTimer s t timer) = s\<lparr>currentEventTitle := t', scrollIndex := 0\<rparr>)"
  by (auto simp add: handleTimer_def Let_def)

lemma webSocketEvent_state:
  "fst (webSocketEvent s type parsed) = s
   \<or> (\<exists>t'. t' \<noteq> currentEventTitle s
           \<and> fst (webSocketEvent s type parsed) = s\<lparr>currentEventTitle := t', scrollIndex := 0\<rparr>)"
proof (cases type)
  case WStype_TEXT
  show ?thesis
  proof (cases parsed)
    case None
    with WStype_TEXT show ?thesis by (simp add: webSocketEvent_def)
  next
    case (Some doc)
    with WStype_TEXT handleTimer_state show ?thesis
      by (simp add: webSocketEvent_def handlePayload_def Let_def)
  qed
qed (simp_all add: webSocketEvent_def)

lemma webSocketEvent_scroll_inv:
  assumes "scroll_inv s"
  shows "scroll_inv (fst (webSocketEvent s type parsed))"
  using webSocketEvent_state [of s type parsed] assms
  by (auto simp add: scroll_inv_def)

lemma webSocketEvent_title_change:
  assumes "currentEventTitle (fst (webSocketEvent s type parsed)) \<noteq> currentEventTitle s"
  shows "scrollIndex (fst (webSocketEvent s type parsed)) = 0"
  using webSocketEvent_state [of s type parsed] assms
  by auto

lemma updateLcdTitle_title:
  "currentEventTitle (fst (updateLcdTitle s now now')) = currentEventTitle s"
  by (simp add: updateLcdTitle_def Let_def)

lemma updateLcdTitle_scroll_inv:
  assumes "scroll_inv s"
  shows "scroll_inv (fst (updateLcdTitle s now now'))"
  using assms by (simp add: updateLcdTitle_def scroll_inv_def Let_def)

lemma step_engine_scroll_inv:
  assumes "scroll_inv s"
  shows "scroll_inv (fst (step_engine s x))"
  using assms by (cases x) (simp_all add: webSocketEvent_scroll_inv updateLcdTitle_scroll_inv)

lemma run_scroll_inv:
  assumes "scroll_inv s"
  shows "scroll_inv (run s steps)"
  using assms
proof (induction steps arbitrary: s)
  case Nil
  then show ?case by simp
next
  case (Cons x steps)
  from Cons.prems have "scroll_inv (fst (step_engine s x))" by (rule step_engine_scroll_inv)
  then have "scroll_inv (run (fst (step_engine s x)) steps)" by (rule Cons.IH)
  then show ?case by simp
qed

lemma after_setup_scroll_inv: "after_setup s \<Longrightarrow> scroll_inv s"
  by (simp add: after_setup_def scroll_inv_def)

text \<open>The window of a long title: 16 characters of the doubled title from the cursor.\<close>

lemma scroll_window:
  assumes "length title > 16" and "0 \<le> idx" and "idx \<le> int (length title) + 3"
  shows "substring (title @ ''   '' @ title) (nat idx) (nat (idx + 16)) =
           take 16 (drop (nat idx) (title @ ''   '' @ title))"
    and "length (take 16 (drop (nat idx) (title @ ''   '' @ title))) = 16"
proof -
  have r: "nat (idx + 16) = nat idx + 16" using assms(2) by simp
  have l: "nat idx \<le> length title + 3" using assms(2,3) by simp
  show "substring (title @ ''   '' @ title) (nat idx) (nat (idx + 16)) =
           take 16 (drop (nat idx) (title @ ''   '' @ title))"
    using assms(1) l by (simp add: substring_def r Let_def)
  show "length (take 16 (drop (nat idx) (title @ ''   '' @ title))) = 16"
    using assms(1) l by simp
qed

lemma updateLcdTitle_due:
  assumes "scroll_inv s" and "now - lastScrollTime s \<ge> scrollInterval"
  shows "snd (updateLcdTitle s now now') =
           [LcdSetCursor 0 0,
            LcdPrint (if length (currentEventTitle s) > 16
                      then take 16 (drop (nat (scrollIndex s))
                             (currentEventTitle s @ ''   '' @ currentEventTitle s))
                      else currentEventTitle s
                           @ replicate (16 - length (currentEventTitle s)) CHR '' '')]"
    and "scrollIndex (fst (updateLcdTitle s now now')) =
           (if length (currentEventTitle s) > 16
            then (if scrollIndex s + 1 > int (length (currentEventTitle s)) + 3 then 0
                  else scrollIndex s + 1)
            else scrollIndex s)"
proof -
  from assms(1) have i: "0 \<le> scrollIndex s" "scrollIndex s \<le> int (length (currentEventTitle s)) + 3"
    by (simp_all add: scroll_inv_def)
  show "snd (updateLcdTitle s now now') =
           [LcdSetCursor 0 0,
            LcdPrint (if length (currentEventTitle s) > 16
                      then take 16 (drop (nat (scrollIndex s))
                             (currentEventTitle s @ ''   '' @ currentEventTitle s))
                      else currentEventTitle s
                           @ replicate (16 - length (currentEventTitle s)) CHR '' '')]"
  proof (cases "length (currentEventTitle s) > 16")
    case True
    from scroll_window(1) [OF True i] assms(2) True show ?thesis
      by (simp add: updateLcdTitle_def Let_def)
  next
    case False
    with assms(2) show ?thesis
      by (simp add: updateLcdTitle_def Let_def pad16_replicate)
  qed
  show "scrollIndex (fst (updateLcdTitle s now now')) =
           (if length (currentEventTitle s) > 16
            then (if scrollIndex s + 1 > int (length (currentEventTitle s)) + 3 then 0
                  else scrollIndex s + 1)
            else scrollIndex s)"
    using assms(2) by (simp add: updateLcdTitle_def Let_def)
qed
text \<open>
  Claim C7. After any run of the engine from its state after setup the scroll cursor
  lies between 0 and the length of the displayed title plus 3. The handler (on any event) and the scroll tick
  both preserve this; the tick never changes the title; and whenever the handler changes
  the displayed title it sets the cursor to 0 in the same call, so that the next due tick
  renders the new title from its first character.
\<close>

theorem scroll_invariant:
  "(after_setup s0 \<longrightarrow> scroll_inv (run s0 steps))
   \<and> (scroll_inv s \<longrightarrow>
        scroll_inv (fst (webSocketEvent s type parsed))
        \<and> scroll_inv (fst (updateLcdTitle s now now')))
   \<and> currentEventTitle (fst (updateLcdTitle s now now')) = currentEventTitle s
   \<and> (currentEventTitle (fst (webSocketEvent s type parsed)) \<noteq> currentEventTitle s \<longrightarrow>
        scrollIndex (fst (webSocketEvent s type parsed)) = 0
        \<and> (now - lastScrollTime (fst (webSocketEvent s type parsed)) \<ge> scrollInterval \<longrightarrow>
             lcdPrints (snd (updateLcdTitle (fst (webSocketEvent s type parsed)) now now')) =
               [if length (currentEventTitle (fst (webSocketEvent s type parsed))) > 16
                then take 16 (currentEventTitle (fst (webSocketEvent s type parsed)))
                else currentEventTitle (fst (webSocketEvent s type parsed))
                     @ replicate (16 - length (currentEventTitle (fst (webSocketEvent s type parsed))))
                         CHR '' '']))"
proof (intro conjI impI)
  assume "after_setup s0"
  then have "scroll_inv s0" by (rule after_setup_scroll_inv)
  then show "scroll_inv (run s0 steps)" by (rule run_scroll_inv)
next
  assume "scroll_inv s"
  then show "scroll_inv (fst (webSocketEvent s type parsed))" by (rule webSocketEvent_scroll_inv)
next
  assume "scroll_inv s"
  then show "scroll_inv (fst (updateLcdTitle s now now'))" by (rule updateLcdTitle_scroll_inv)
next
  show "currentEventTitle (fst (updateLcdTitle s now now')) = currentEventTitle s"
    by (rule updateLcdTitle_title)
next
  assume "currentEventTitle (fst (webSocketEvent s type parsed)) \<noteq> currentEventTitle s"
  then show "scrollIndex (fst (webSocketEvent s type parsed)) = 0"
    by (rule webSocketEvent_title_change)
next
  let ?s' = "fst (webSocketEvent s type parsed)"
  assume changed: "currentEventTitle ?s' \<noteq> currentEventTitle s"
    and due: "now - lastScrollTime ?s' \<ge> scrollInterval"
  from changed have z: "scrollIndex ?s' = 0" by (rule webSocketEvent_title_change)
  then have inv: "scroll_inv ?s'" by (simp add: scroll_inv_def)
  show "lcdPrints (snd (updateLcdTitle ?s' now now')) =
          [if length (currentEventTitle ?s') > 16 then take 16 (currentEventTitle ?s')
           else currentEventTitle ?s' @ replicate (16 - length (currentEventTitle ?s')) CHR '' '']"
    by (simp add: updateLcdTitle_due(1) [OF inv due] z)
qed

lemma long_title_message:
  "fst (webSocketEvent boot WStype_TEXT
     (Some (JObject [(''payload'', JObject [(''timer'',
        JObject [(''label'', JString ''This Is A Very Long Event Title'')])])])))
   = boot\<lparr>currentEventTitle := ''This Is A Very Long Event Title'', scrollIndex := 0\<rparr>"
  by (simp add: webSocketEvent_def handlePayload_def handleTimer_def boot_def Let_def)

lemma after_setup_boot: "after_setup boot"
  by (simp add: after_setup_def boot_def)

theorem scroll_invariant_witness:
  "after_setup boot
   \<and> scroll_inv (run boot
        [Event WStype_TEXT (Some (JObject [(''payload'', JObject [(''timer'',
           JObject [(''label'', JString ''This Is A Very Long Event Title'')])])]))])
   \<and> scroll_inv boot
   \<and> currentEventTitle (fst (webSocketEvent boot WStype_TEXT
        (Some (JObject [(''payload'', JObject [(''timer'',
           JObject [(''label'', JString ''This Is A Very Long Event Title'')])])]))))
       \<noteq> currentEventTitle boot
   \<and> scroll_inv (fst (webSocketEvent boot WStype_TEXT
        (Some (JObject [(''payload'', JObject [(''timer'',
           JObject [(''label'', JString ''This Is A Very Long Event Title'')])])]))))
   \<and> scroll_inv (fst (updateLcdTitle boot 400 401))
   \<and> scrollIndex (fst (webSocketEvent boot WStype_TEXT
        (Some (JObject [(''payload'', JObject [(''timer'',
           JObject [(''label'', JString ''This Is A Very Long Event Title'')])])])))) = 0
   \<and> lcdPrints (snd (updateLcdTitle (fst (webSocketEvent boot WStype_TEXT
        (Some (JObject [(''payload'', JObject [(''timer'',
           JObject [(''label'', JString ''This Is A Very Long Event Title'')])])])))) 400 401))
       = [''This Is A Very L'']"
proof -
  have b: "scroll_inv boot"
    by (simp add: scroll_inv_def boot_def)
  from scroll_invariant [of boot
      "[Event WStype_TEXT (Some (JObject [(''payload'', JObject [(''timer'',
           JObject [(''label'', JString ''This Is A Very Long Event Title'')])])]))]"
      boot WStype_TEXT
      "Some (JObject [(''payload'', JObject [(''timer'',
           JObject [(''label'', JString ''This Is A Very Long Event Title'')])])])" 400 401]
    after_setup_boot b
  show ?thesis
    by (simp add: long_title_message scrollInterval_def) (simp add: boot_def)
qed

text \<open>
  Claim C8. After any run of the engine from its state after setup, a due scroll tick on
  a title of more than 16 characters prints the 16 characters of title, three spaces,
  title that start at the cursor, then moves the cursor one further, back to 0 once it is
  beyond the title's length plus 3; on a title of at most 16 characters it prints the
  title, left-justified and padded with spaces to exactly 16 characters.
\<close>

theorem scroll_tick:
  assumes "after_setup s0" and "s = run s0 steps"
    and "now - lastScrollTime s \<ge> scrollInterval"
  shows "(length (currentEventTitle s) > 16 \<longrightarrow>
            snd (updateLcdTitle s now now') =
              [LcdSetCursor 0 0,
               LcdPrint (take 16 (drop (nat (scrollIndex s))
                                    (currentEventTitle s @ ''   '' @ currentEventTitle s)))]
            \<and> length (take 16 (drop (nat (scrollIndex s))
                                  (currentEventTitle s @ ''   '' @ currentEventTitle s))) = 16
            \<and> scrollIndex (fst (updateLcdTitle s now now')) =
                (if scrollIndex s + 1 > int (length (currentEventTitle s)) + 3 then 0
                 else scrollIndex s + 1))
       \<and> (length (currentEventTitle s) \<le> 16 \<longrightarrow>
            snd (updateLcdTitle s now now') =
              [LcdSetCursor 0 0,
               LcdPrint (currentEventTitle s @ replicate (16 - length (currentEventTitle s)) CHR '' '')]
            \<and> length (currentEventTitle s @ replicate (16 - length (currentEventTitle s)) CHR '' '') = 16
            \<and> scrollIndex (fst (updateLcdTitle s now now')) = scrollIndex s)"
proof -
  from assms(1) have "scroll_inv s0" by (rule after_setup_scroll_inv)
  then have "scroll_inv (run s0 steps)" by (rule run_scroll_inv)
  with assms(2) have inv: "scroll_inv s" by simp
  then have i: "0 \<le> scrollIndex s" "scrollIndex s \<le> int (length (currentEventTitle s)) + 3"
    by (simp_all add: scroll_inv_def)
  have w: "length (currentEventTitle s) > 16 \<Longrightarrow>
           length (take 16 (drop (nat (scrollIndex s))
                              (currentEventTitle s @ ''   '' @ currentEventTitle s))) = 16"
  proof -
    assume "length (currentEventTitle s) > 16"
    from this i show ?thesis by (rule scroll_window(2))
  qed
  from w show ?thesis
    by (simp add: updateLcdTitle_due [OF inv assms(3)])
qed

theorem scroll_tick_witness:
  "after_setup boot
   \<and> (400 :: 32 word) - lastScrollTime
         (run boot [Event WStype_TEXT (Some (JObject [(''payload'', JObject [(''timer'',
                      JObject [(''label'', JString ''This Is A Very Long Event Title'')])])]))])
       \<ge> scrollInterval
   \<and> length (currentEventTitle
         (run boot [Event WStype_TEXT (Some (JObject [(''payload'', JObject [(''timer'',
                      JObject [(''label'', JString ''This Is A Very Long Event Title'')])])]))])) > 16
   \<and> snd (updateLcdTitle
         (run boot [Event WStype_TEXT (Some (JObject [(''payload'', JObject [(''timer'',
                      JObject [(''label'', JString ''This Is A Very Long Event Title'')])])]))])
         400 401)
       = [LcdSetCursor 0 0, LcdPrint ''This Is A Very L'']
   \<and> scrollIndex (fst (updateLcdTitle
         (run boot [Event WStype_TEXT (Some (JObject [(''payload'', JObject [(''timer'',
                      JObject [(''label'', JString ''This Is A Very Long Event Title'')])])]))])
         400 401))
       = 1
   \<and> (400 :: 32 word) - lastScrollTime (run boot []) \<ge> scrollInterval
   \<and> length (currentEventTitle (run boot [])) \<le> 16
   \<and> snd (updateLcdTitle (run boot []) 400 401) = [LcdSetCursor 0 0, LcdPrint ''Ontime          '']"
proof -
  let ?steps = "[Event WStype_TEXT (Some (JObject [(''payload'', JObject [(''timer'',
                     JObject [(''label'', JString ''This Is A Very Long Event Title'')])])]))]"
  have d: "(400 :: 32 word) - lastScrollTime (run boot ?steps) \<ge> scrollInterval"
    "(400 :: 32 word) - lastScrollTime (run boot []) \<ge> scrollInterval"
    by (simp_all add: long_title_message scrollInterval_def) (simp_all add: boot_def)
  from scroll_tick [OF after_setup_boot refl d(1), of 401]
       scroll_tick [OF after_setup_boot refl d(2), of 401] d after_setup_boot
  show ?thesis
    by (simp add: long_title_message) (simp add: boot_def eval_nat_numeral)
qed

end
